theory Spec2Isabelle
  imports Complex_Main "HOL-Library.AList"
begin

section \<open>Leveling formula\<close>

text \<open>
  \<^verbatim>\<open>calculate_bedwars_level\<close> of \<^verbatim>\<open>leaderboard_tracker.py\<close>.  Python integers are
  unbounded, so experience is an \<^typ>\<open>int\<close>; Python's \<^verbatim>\<open>//\<close> and \<^verbatim>\<open>%\<close> round towards
  minus infinity, as \<open>div\<close> and \<open>mod\<close> on \<^typ>\<open>int\<close> do.  The loop over \<^verbatim>\<open>costs\<close> with
  its \<^verbatim>\<open>break\<close> is the recursion \<open>consume_costs\<close>, which carries the two variables
  the loop updates (\<^verbatim>\<open>remaining_xp\<close>, \<^verbatim>\<open>levels_in_prestige\<close>).
\<close>

fun consume_costs :: "int list \<Rightarrow> int \<Rightarrow> int \<Rightarrow> int \<times> int" where
  "consume_costs [] remaining_xp levels_in_prestige = (remaining_xp, levels_in_prestige)"
| "consume_costs (cost # costs) remaining_xp levels_in_prestige =
     (if remaining_xp \<ge> cost
      then consume_costs costs (remaining_xp - cost) (levels_in_prestige + 1)
      else (remaining_xp, levels_in_prestige))"

definition calculate_bedwars_level :: "int \<Rightarrow> int" where
  "calculate_bedwars_level experience =
     (let xp = experience;
          xp_for_prestige = 487000;
          prestiges = xp div xp_for_prestige;
          level = prestiges * 100;
          remaining_xp = xp mod xp_for_prestige;
          (remaining_xp', levels_in_prestige) = consume_costs [500, 1000, 2000, 3500] remaining_xp 0;
          levels_from_normal_xp = remaining_xp' div 5000
      in level + (levels_in_prestige + levels_from_normal_xp))"

text \<open>
  The same function as \<^verbatim>\<open>recompute_levels.py\<close> defines it (a module-level function of
  the same name, hence the prefix).
\<close>

fun recompute_consume_costs :: "int list \<Rightarrow> int \<Rightarrow> int \<Rightarrow> int \<times> int" where
  "recompute_consume_costs [] remaining_xp levels_in_prestige = (remaining_xp, levels_in_prestige)"
| "recompute_consume_costs (cost # costs) remaining_xp levels_in_prestige =
     (if remaining_xp \<ge> cost
      then recompute_consume_costs costs (remaining_xp - cost) (levels_in_prestige + 1)
      else (remaining_xp, levels_in_prestige))"

definition recompute_calculate_bedwars_level :: "int \<Rightarrow> int" where
  "recompute_calculate_bedwars_level experience =
     (let xp = experience;
          xp_for_prestige = 487000;
          prestiges = xp div xp_for_prestige;
          level = prestiges * 100;
          remaining_xp = xp mod xp_for_prestige;
          (remaining_xp', levels_in_prestige) =
             recompute_consume_costs [500, 1000, 2000, 3500] remaining_xp 0;
          levels_from_normal_xp = remaining_xp' div 5000
      in level + (levels_in_prestige + levels_from_normal_xp))"

text \<open>
  The formula as the specification words it: within a prestige the tiers of 500, 1000,
  2000 and 3500 XP are bought in order, one level each, until one cannot be paid; what is
  left buys one level per 5000 XP.
\<close>

definition levels_within_prestige :: "int \<Rightarrow> int" where
  "levels_within_prestige r =
     (if r < 500 then r div 5000
      else if r - 500 < 1000 then 1 + (r - 500) div 5000
      else if r - 500 - 1000 < 2000 then 2 + (r - 500 - 1000) div 5000
      else if r - 500 - 1000 - 2000 < 3500 then 3 + (r - 500 - 1000 - 2000) div 5000
      else 4 + (r - 500 - 1000 - 2000 - 3500) div 5000)"

section \<open>Session tracker: ratios and session diffs\<close>

text \<open>
  Python floats are modelled by exact rationals: a quotient is the exact quotient, and
  \<^verbatim>\<open>round(x, 3)\<close> rounds the exact value to the nearest multiple of 1/1000, a tie going
  to the even multiple.  The representation error of binary floating point is not
  modelled.
\<close>

definition round_half_even :: "rat \<Rightarrow> int" where
  "round_half_even x =
     (let f = \<lfloor>x\<rfloor>; d = x - of_int f
      in if d < 1 / 2 then f
         else if 1 / 2 < d then f + 1
         else if even f then f else f + 1)"

definition round3 :: "rat \<Rightarrow> rat" where
  "round3 x = of_int (round_half_even (x * 1000)) / 1000"

text \<open>\<^verbatim>\<open>BedwarsStatsTracker.calculate_wlr\<close>.\<close>

definition calculate_wlr :: "int \<Rightarrow> int \<Rightarrow> rat" where
  "calculate_wlr wins_n losses_n =
     (if losses_n > 0 then round3 (of_int wins_n / of_int losses_n) else of_int wins_n)"

text \<open>
  The dictionaries the tracker passes around.  A scope's counters are
  \<^verbatim>\<open>{"wins", "losses", "WLR"}\<close>; a mode's statistics add \<^verbatim>\<open>"winstreak"\<close> (an integer or
  \<^verbatim>\<open>None\<close>); the player's statistics add \<^verbatim>\<open>"modes"\<close>, a dictionary from mode name to
  mode statistics, kept as an association list in insertion order.
\<close>

record wl_counts =
  wins :: int
  losses :: int
  WLR :: rat

record mode_stats = wl_counts +
  winstreak :: "int option"

record stats = mode_stats +
  modes :: "(string \<times> mode_stats) list"

text \<open>
  \<^verbatim>\<open>_parse_mode_stats\<close> and \<^verbatim>\<open>_parse_bedwars_stats\<close>: the raw Bedwars counters of the API
  are a dictionary from key to integer; a missing counter reads as 0, a missing winstreak
  as \<^verbatim>\<open>None\<close>.
\<close>

definition get0 :: "(string \<rightharpoonup> int) \<Rightarrow> string \<Rightarrow> int" where
  "get0 d k = (case d k of None \<Rightarrow> 0 | Some v \<Rightarrow> v)"

definition parse_mode_stats :: "(string \<rightharpoonup> int) \<Rightarrow> string \<Rightarrow> mode_stats" where
  "parse_mode_stats raw mode_prefix =
     (let wins_n = get0 raw (mode_prefix @ ''_wins_bedwars'');
          losses_n = get0 raw (mode_prefix @ ''_losses_bedwars'')
      in \<lparr>wins = wins_n, losses = losses_n, WLR = calculate_wlr wins_n losses_n,
          winstreak = raw (mode_prefix @ ''_winstreak'')\<rparr>)"

definition parse_bedwars_stats :: "(string \<rightharpoonup> int) \<Rightarrow> stats" where
  "parse_bedwars_stats raw =
     (let overall_wins = get0 raw ''wins_bedwars'';
          overall_losses = get0 raw ''losses_bedwars''
      in \<lparr>wins = overall_wins, losses = overall_losses,
          WLR = calculate_wlr overall_wins overall_losses,
          winstreak = raw ''winstreak'',
          modes = [(''solos'', parse_mode_stats raw ''eight_one''),
                   (''doubles'', parse_mode_stats raw ''eight_two''),
                   (''threes'', parse_mode_stats raw ''four_three''),
                   (''fours'', parse_mode_stats raw ''four_four'')]\<rparr>)"

text \<open>
  \<^verbatim>\<open>calculate_session_diff\<close>.  The result is \<^verbatim>\<open>{"overall": ..., "modes": ...}\<close>; its
  second component is the local \<^verbatim>\<open>modes_diff\<close>.  The loop runs over the items of
  \<^verbatim>\<open>current_stats["modes"]\<close>; a mode missing from the baseline counts as 0 wins and
  0 losses there.  Assigning to a dictionary key is \<^const>\<open>AList.update\<close>.
\<close>

record session_diff =
  overall :: wl_counts
  modes_diff :: "(string \<times> wl_counts) list"

fun modes_diff_loop ::
  "(string \<times> mode_stats) list \<Rightarrow> (string \<times> mode_stats) list \<Rightarrow> (string \<times> wl_counts) list
   \<Rightarrow> (string \<times> wl_counts) list" where
  "modes_diff_loop [] baseline_modes acc = acc"
| "modes_diff_loop ((mode, current_mode_stats) # rest) baseline_modes acc =
     (let (baseline_wins, baseline_losses) =
            (case map_of baseline_modes mode of
               None \<Rightarrow> (0, 0)
             | Some baseline_mode_stats \<Rightarrow> (wins baseline_mode_stats, losses baseline_mode_stats));
          wins_diff = wins current_mode_stats - baseline_wins;
          losses_diff = losses current_mode_stats - baseline_losses
      in modes_diff_loop rest baseline_modes
           (if wins_diff \<noteq> 0 \<or> losses_diff \<noteq> 0
            then AList.update mode
                   \<lparr>wins = wins_diff, losses = losses_diff,
                    WLR = calculate_wlr wins_diff losses_diff\<rparr> acc
            else acc))"

definition calculate_session_diff :: "stats \<Rightarrow> stats \<Rightarrow> session_diff" where
  "calculate_session_diff current_stats baseline_stats =
     (let wins_d = wins current_stats - wins baseline_stats;
          losses_d = losses current_stats - losses baseline_stats;
          overall_diff = \<lparr>wins = wins_d, losses = losses_d, WLR = calculate_wlr wins_d losses_d\<rparr>
      in \<lparr>overall = overall_diff,
          modes_diff = modes_diff_loop (modes current_stats) (modes baseline_stats) []\<rparr>)"

section \<open>Session tracker: winstreak estimates\<close>

text \<open>
  \<^verbatim>\<open>update_winstreak_estimates\<close> mutates the dictionary \<^verbatim>\<open>winstreak_data\<close> (scope name to
  estimate) in place; the model returns the new dictionary.  An estimate written from an
  API value carries the key \<^verbatim>\<open>"api_value"\<close>, which later in-place updates keep.
\<close>

record winstreak_estimate =
  api_value :: "int option"
  min_possible :: int
  max_possible :: int
  likely :: rat

definition update_scope ::
  "session_diff \<Rightarrow> stats \<Rightarrow> string \<Rightarrow> (string \<times> winstreak_estimate) list
   \<Rightarrow> (string \<times> winstreak_estimate) list" where
  "update_scope diff current_stats scope winstreak_data =
     (let (wins_n, losses_n, api_winstreak) =
            (if scope = ''overall''
             then (wins (overall diff), losses (overall diff), winstreak current_stats)
             else if scope \<in> set (map fst (modes_diff diff))
             then (wins (overall diff), losses (overall diff),
                   (case map_of (modes current_stats) scope of
                      None \<Rightarrow> None
                    | Some m \<Rightarrow> winstreak m))
             else (0, 0, None))
      in if wins_n = 0 \<and> losses_n = 0 then winstreak_data
         else
           let data1 =
                 (case map_of winstreak_data scope of
                    None \<Rightarrow>
                      AList.update scope
                        \<lparr>api_value = None, min_possible = 0, max_possible = 0, likely = 0\<rparr>
                        winstreak_data
                  | Some _ \<Rightarrow> winstreak_data)
           in (case api_winstreak of
                 Some v \<Rightarrow>
                   AList.update scope
                     \<lparr>api_value = Some v, min_possible = v, max_possible = v, likely = of_int v\<rparr>
                     data1
               | None \<Rightarrow>
                   AList.map_entry scope
                     (\<lambda>e. if losses_n > 0
                          then e\<lparr>min_possible := 0, max_possible := wins_n,
                                 likely := of_int wins_n / of_int (losses_n + 1)\<rparr>
                          else e\<lparr>min_possible := min_possible e + wins_n,
                                 max_possible := max_possible e + wins_n,
                                 likely := likely e + of_int wins_n\<rparr>)
                     data1))"

definition update_winstreak_estimates ::
  "(string \<times> winstreak_estimate) list \<Rightarrow> session_diff \<Rightarrow> stats
   \<Rightarrow> (string \<times> winstreak_estimate) list" where
  "update_winstreak_estimates winstreak_data diff current_stats =
     (let scopes = ''overall'' # map fst (modes_diff diff)
      in fold (update_scope diff current_stats) scopes winstreak_data)"

section \<open>Session tracker: session log and baseline\<close>

text \<open>Formatting of integers as Python's \<^verbatim>\<open>str\<close> does, and \<^verbatim>\<open>str.capitalize\<close> on ASCII.\<close>

function str_digits :: "int \<Rightarrow> string" where
  "str_digits n =
     (if n < 10 then [''0123456789'' ! nat n]
      else str_digits (n div 10) @ [''0123456789'' ! nat (n mod 10)])"
  by pat_completeness auto
termination
  by (relation "measure nat") auto

declare str_digits.simps [simp del]

definition str_int :: "int \<Rightarrow> string" where
  "str_int i = (if i < 0 then CHR ''-'' # str_digits (- i) else str_digits i)"

definition str_nat :: "nat \<Rightarrow> string" where
  "str_nat n = str_digits (int n)"

definition ascii_upper :: "char \<Rightarrow> char" where
  "ascii_upper c =
     (let n = (of_char c :: nat) in if 97 \<le> n \<and> n \<le> 122 then char_of (n - 32) else c)"

definition ascii_lower :: "char \<Rightarrow> char" where
  "ascii_lower c =
     (let n = (of_char c :: nat) in if 65 \<le> n \<and> n \<le> 90 then char_of (n + 32) else c)"

definition capitalize :: "string \<Rightarrow> string" where
  "capitalize s = (case s of [] \<Rightarrow> [] | c # cs \<Rightarrow> ascii_upper c # map ascii_lower cs)"

fun join :: "string \<Rightarrow> string list \<Rightarrow> string" where
  "join sep [] = []"
| "join sep [x] = x"
| "join sep (x # y # ys) = x @ sep @ join sep (y # ys)"

text \<open>
  The session file of a player: the winstreak estimates, the sessions under the keys
  \<^verbatim>\<open>session_<n>\<close> (kept here under the number \<open>n\<close>, in file order) and the summary
  lines.  \<^verbatim>\<open>build_session_summary\<close> walks the sessions in the order of their numbers.
\<close>

record session_data =
  winstreak_data :: "(string \<times> winstreak_estimate) list"
  sessions :: "(nat \<times> session_diff) list"
  summary :: "string list"

definition session_line :: "nat \<times> session_diff \<Rightarrow> string" where
  "session_line entry =
     join '' ''
       ((''Session '' @ str_nat (fst entry) @ '':'')
        # map (\<lambda>(mode_name, d).
                 capitalize mode_name @ '' W/L: '' @ str_int (wins d) @ ''/'' @ str_int (losses d))
              (modes_diff (snd entry)))"

definition build_session_summary :: "(nat \<times> session_diff) list \<Rightarrow> string list" where
  "build_session_summary session_entries = map session_line (sort_key fst session_entries)"

text \<open>
  The tracker's files and in-memory tables.  Time is a number of seconds.  A file that
  does not exist (or is empty) is \<open>None\<close>.
\<close>

record cooldown_info =
  last_check :: nat
  api_on :: bool


record game =
  game_id :: string
  timestamp :: "int option"
  mode :: string
  map_name :: string

record recent_games_data =
  recent_games :: "game list"
  file_api_enabled :: "bool option"

record tracker =
  baseline_files :: "string \<rightharpoonup> stats"
  session_files :: "string \<rightharpoonup> session_data"
  recent_games_files :: "string \<rightharpoonup> recent_games_data"
  player_cooldowns :: "string \<rightharpoonup> cooldown_info"
  cooldown_file :: "string \<rightharpoonup> cooldown_info"

text \<open>
  \<^verbatim>\<open>process_player_session\<close>.  The outcome of \<^verbatim>\<open>fetch_player_stats\<close> is the argument
  \<open>fetched\<close> (\<open>None\<close> when the request failed or the player is unknown); \<open>now\<close> is
  the clock reading used for a cooldown entry.
\<close>

definition process_player_session ::
  "string \<Rightarrow> stats option \<Rightarrow> nat \<Rightarrow> tracker \<Rightarrow> tracker" where
  "process_player_session player_name fetched now st =
     (case fetched of
        None \<Rightarrow> st
      | Some current_stats \<Rightarrow>
          (case baseline_files st player_name of
             None \<Rightarrow> st\<lparr>baseline_files := (baseline_files st)(player_name \<mapsto> current_stats)\<rparr>
           | Some baseline_stats \<Rightarrow>
               if wins current_stats = wins baseline_stats
                  \<and> losses current_stats = losses baseline_stats
               then st
               else
                 let loaded =
                       (case session_files st player_name of
                          None \<Rightarrow> \<lparr>winstreak_data = [], sessions = [], summary = []\<rparr>
                        | Some d \<Rightarrow> d);
                     diff = calculate_session_diff current_stats baseline_stats;
                     games_played = wins (overall diff) + losses (overall diff);
                     st1 =
                       (if 1 \<le> games_played \<and> games_played \<le> 2
                        then
                          let cooldowns =
                                (player_cooldowns st)
                                  (player_name \<mapsto> \<lparr>last_check = now, api_on = True\<rparr>)
                          in st\<lparr>player_cooldowns := cooldowns, cooldown_file := cooldowns\<rparr>
                        else st);
                     session_num = length (sessions loaded) + 1;
                     estimates = update_winstreak_estimates (winstreak_data loaded) diff current_stats;
                     entries = sort_key fst (AList.update session_num diff (sessions loaded));
                     new_session_data =
                       \<lparr>winstreak_data = estimates, sessions = entries,
                        summary = build_session_summary entries\<rparr>
                 in st1\<lparr>session_files := (session_files st1)(player_name \<mapsto> new_session_data),
                        baseline_files := (baseline_files st1)(player_name \<mapsto> current_stats)\<rparr>))"

section \<open>Recent-games tracker\<close>














section \<open>Player store\<close>

text \<open>
  The tables of \<^verbatim>\<open>_setup_database\<close>.  A column of the table \<^verbatim>\<open>players\<close> is prefixed
  \<open>p_\<close>, one of \<^verbatim>\<open>bedwars_stats\<close> \<open>s_\<close>; the columns of \<^verbatim>\<open>player_discovery\<close> keep
  their names but for \<open>d_id\<close>.  \<^verbatim>\<open>CURRENT_TIMESTAMP\<close> is a number of seconds.  The
  counters of a snapshot are a record of their own, which the statistics fetched for a
  player extend as well.
\<close>

record player_row =
  p_uuid :: string
  p_username :: string
  p_first_seen :: nat
  p_last_updated :: nat
  p_discovery_method :: "string option"
  p_is_active :: bool
  p_bedwars_level :: int
  p_last_login :: "int option"

record stat_counters =
  s_uuid :: string
  s_wins :: int
  s_losses :: int
  s_kills :: int
  s_deaths :: int
  s_final_kills :: int
  s_final_deaths :: int
  s_beds_broken :: int
  s_beds_lost :: int
  s_winstreak :: "int option"
  s_coins :: int
  s_experience :: int
  s_games_played :: int
  s_solos_wins :: int
  s_solos_losses :: int
  s_solos_winstreak :: "int option"
  s_doubles_wins :: int
  s_doubles_losses :: int
  s_doubles_winstreak :: "int option"
  s_threes_wins :: int
  s_threes_losses :: int
  s_threes_winstreak :: "int option"
  s_fours_wins :: int
  s_fours_losses :: int
  s_fours_winstreak :: "int option"

record snapshot = stat_counters +
  s_id :: nat
  s_timestamp :: nat





record discovery_entry =
  d_id :: nat
  discovered_uuid :: string
  source_uuid :: "string option"
  discovery_method :: string
  discovered_at :: nat
  processed :: bool

text \<open>
  The store: the three tables and the two \<^verbatim>\<open>AUTOINCREMENT\<close> counters (the largest
  identifier handed out so far in \<^verbatim>\<open>bedwars_stats\<close> and in \<^verbatim>\<open>player_discovery\<close>).
\<close>

record db =
  players :: "player_row list"
  bedwars_stats :: "snapshot list"
  player_discovery :: "discovery_entry list"
  stats_seq :: nat
  discovery_seq :: nat

section \<open>Leaderboard generator\<close>














section \<open>Discovery queue and stat collection\<close>

text \<open>
  The Hypixel API as the tracker sees it.  A request names an endpoint and the identifier
  put into its URL.  A response carries the status code, the headers
  \<^verbatim>\<open>RateLimit-Remaining\<close> and \<^verbatim>\<open>RateLimit-Reset\<close> when present, and the JSON document, of
  which the model keeps \<^verbatim>\<open>"player"\<close> (display name, last login, the Bedwars counters) and
  the \<^verbatim>\<open>"uuid"\<close> fields of \<^verbatim>\<open>"guild"."members"\<close>.  A request may also end in a
  \<^verbatim>\<open>RequestException\<close>.
\<close>

datatype endpoint = Player_endpoint | Guild_endpoint | Leaderboards_endpoint

record player_doc =
  displayname :: "string option"
  lastLogin :: "int option"
  bedwars :: "string \<rightharpoonup> int"

record api_body =
  body_player :: "player_doc option"
  body_guild :: "string option list option"

datatype http_response =
    Http_response nat "int option" "nat option" api_body
  | Request_exception

text \<open>
  The state of a \<^verbatim>\<open>MassiveBedwarsTracker\<close>: the store behind its connection, its field
  \<^verbatim>\<open>rate_limit_remaining\<close>, the clock (seconds; it advances when the tracker sleeps), the
  responses the network will give to the coming requests, in order (once they are used
  up every request ends in a \<^verbatim>\<open>RequestException\<close>), and a journal of the requests sent
  and of the rows marked processed, in the order in which they happened.
\<close>

datatype event = Http_get endpoint string | Sql_update_processed nat

record massive_tracker =
  store :: db
  rate_limit_remaining :: int
  clock :: rat
  network :: "http_response list"
  journal :: "event list"











text \<open>
  \<^verbatim>\<open>add_player_to_discovery\<close>.  In the second query \<^verbatim>\<open>AND\<close> binds tighter than \<^verbatim>\<open>OR\<close>:
  an entry with the uuid as given counts whether processed or not, one with the formatted
  uuid only while unprocessed.
\<close>

definition format_uuid :: "string \<Rightarrow> string" where
  "format_uuid uuid =
     (let clean_uuid = filter (\<lambda>c. c \<noteq> CHR ''-'') uuid
      in take 8 clean_uuid @ ''-'' @ take 4 (drop 8 clean_uuid) @ ''-''
         @ take 4 (drop 12 clean_uuid) @ ''-'' @ take 4 (drop 16 clean_uuid) @ ''-''
         @ drop 20 clean_uuid)"

definition insert_discovery :: "string \<Rightarrow> string option \<Rightarrow> string \<Rightarrow> nat \<Rightarrow> db \<Rightarrow> db" where
  "insert_discovery uuid source method now d =
     d\<lparr>player_discovery :=
          player_discovery d
          @ [\<lparr>d_id = discovery_seq d + 1, discovered_uuid = uuid, source_uuid = source,
              discovery_method = method, discovered_at = now, processed = False\<rparr>],
       discovery_seq := discovery_seq d + 1\<rparr>"









section \<open>UUID ingestor\<close>

text \<open>
  The Mojang API as the ingestor sees it: a response is a status code and the one field
  of the JSON document the caller reads (\<^verbatim>\<open>"id"\<close> of a profile looked up by name,
  \<^verbatim>\<open>"name"\<close> of a profile looked up by uuid), or the request ends in a
  \<^verbatim>\<open>RequestException\<close>.  An \<^verbatim>\<open>INSERT\<close> succeeds, finds the database locked, or fails
  with another error.
\<close>

datatype mojang_response = Mojang_response nat "string option" | Mojang_exception

datatype db_outcome = Db_ok | Db_locked | Db_error

datatype lookup_status = SUCCESS | PLAYER_NOT_FOUND | RATE_LIMITED | ERROR

record name_change =
  old_name :: string
  new_name :: string
  change_date :: nat

text \<open>
  The state of a \<^verbatim>\<open>UUIDIngestor\<close> and of the files it works on: the store, the progress
  file (the number it holds, \<open>None\<close> when it is missing, empty or unreadable), the lines
  of the scraped-names file (\<open>None\<close> when missing), the uuid cache and the name-change
  log (dictionaries, as association lists), the clock; then what the environment will do:
  the answers of the Mojang API to the coming requests (after them every request ends in
  a \<^verbatim>\<open>RequestException\<close>), the coming draws of \<^verbatim>\<open>random.uniform(0, 1)\<close> (0 after them)
  and what the coming \<^verbatim>\<open>INSERT\<close>s meet (success after them); and a journal: the names
  looked up by name at the API and the durations slept, in order.
\<close>

record ingestor =
  i_store :: db
  progress_file :: "nat option"
  scraped_names_file :: "string list option"
  uuid_cache :: "(string \<times> string) list"
  name_changes :: "(string \<times> name_change list) list"
  i_clock :: rat
  mojang :: "mojang_response list"
  jitter :: "rat list"
  db_outcomes :: "db_outcome list"
  lookups :: "string list"
  slept :: "rat list"

definition RATE_LIMIT_BACKOFF_SECONDS :: rat where
  "RATE_LIMIT_BACKOFF_SECONDS = 10"

definition MAX_RATE_LIMIT_BACKOFF_SECONDS :: rat where
  "MAX_RATE_LIMIT_BACKOFF_SECONDS = 600"

definition REQUEST_DELAY :: rat where
  "REQUEST_DELAY = 2"

definition i_sleep :: "rat \<Rightarrow> ingestor \<Rightarrow> ingestor" where
  "i_sleep seconds st = st\<lparr>i_clock := i_clock st + seconds, slept := slept st @ [seconds]\<rparr>"

definition i_timestamp :: "ingestor \<Rightarrow> nat" where
  "i_timestamp st = nat \<lfloor>i_clock st\<rfloor>"

definition get_last_processed_line :: "ingestor \<Rightarrow> nat" where
  "get_last_processed_line st = (case progress_file st of None \<Rightarrow> 0 | Some n \<Rightarrow> n)"

definition update_last_processed_line :: "nat \<Rightarrow> ingestor \<Rightarrow> ingestor" where
  "update_last_processed_line line_number st = st\<lparr>progress_file := Some line_number\<rparr>"

text \<open>\<^verbatim>\<open>_get_username_from_uuid_mojang\<close>: one request; the name on status 200, else \<open>None\<close>.\<close>

definition get_username_from_uuid_mojang :: "string \<Rightarrow> ingestor \<Rightarrow> string option \<times> ingestor" where
  "get_username_from_uuid_mojang uuid st =
     (case mojang st of
        [] \<Rightarrow> (None, st)
      | Mojang_exception # rest \<Rightarrow> (None, st\<lparr>mojang := rest\<rparr>)
      | Mojang_response code field # rest \<Rightarrow>
          (if code = 200 then field else None, i_sleep REQUEST_DELAY (st\<lparr>mojang := rest\<rparr>)))"

definition log_name_change :: "string \<Rightarrow> string \<Rightarrow> ingestor \<Rightarrow> ingestor" where
  "log_name_change old new st =
     (let change_record = \<lparr>old_name = old, new_name = new, change_date = i_timestamp st\<rparr>;
          earlier = (case map_of (name_changes st) old of None \<Rightarrow> [] | Some cs \<Rightarrow> cs)
      in st\<lparr>name_changes := AList.update old (earlier @ [change_record]) (name_changes st)\<rparr>)"

text \<open>
  The retry loop of \<^verbatim>\<open>get_player_uuid_and_name\<close>.  A request that raises, and an answer
  other than 200 and 404, count as a retry; an answer 200 without an \<^verbatim>\<open>"id"\<close> does not.
\<close>

function lookup_loop ::
  "string \<Rightarrow> nat \<Rightarrow> rat \<Rightarrow> ingestor
   \<Rightarrow> (string option \<times> string option \<times> lookup_status) \<times> ingestor" where
  "lookup_loop player_name retries current_backoff st =
     (if \<not> retries < 3 then ((None, None, ERROR), st)
      else
        case mojang st of
          [] \<Rightarrow>
            lookup_loop player_name (retries + 1) current_backoff
              (st\<lparr>lookups := lookups st @ [player_name]\<rparr>)
        | Mojang_exception # rest \<Rightarrow>
            lookup_loop player_name (retries + 1) current_backoff
              (st\<lparr>lookups := lookups st @ [player_name], mojang := rest\<rparr>)
        | Mojang_response code field # rest \<Rightarrow>
            let st1 = i_sleep REQUEST_DELAY
                        (st\<lparr>lookups := lookups st @ [player_name], mojang := rest\<rparr>)
            in if code = 200
               then (case field of
                       None \<Rightarrow> lookup_loop player_name retries current_backoff st1
                     | Some uuid \<Rightarrow>
                         if uuid = [] then lookup_loop player_name retries current_backoff st1
                         else
                           ((Some (format_uuid uuid), Some player_name, SUCCESS),
                            st1\<lparr>uuid_cache :=
                                   AList.update player_name (format_uuid uuid) (uuid_cache st1)\<rparr>))
               else if code = 404 then ((None, None, PLAYER_NOT_FOUND), st1)
               else if code = 429
               then
                 let draw = (case jitter st1 of [] \<Rightarrow> 0 | j # _ \<Rightarrow> j);
                     sleep_time = min current_backoff MAX_RATE_LIMIT_BACKOFF_SECONDS + draw
                 in lookup_loop player_name (retries + 1) (current_backoff * 2)
                      (i_sleep sleep_time (st1\<lparr>jitter := tl (jitter st1)\<rparr>))
               else lookup_loop player_name (retries + 1) current_backoff st1)"
  by pat_completeness auto
termination
  by (relation "measure (\<lambda>(player_name, retries, current_backoff, st).
                           length (mojang st) + (3 - retries))")
     (auto simp: i_sleep_def)

declare lookup_loop.simps [simp del]

definition get_player_uuid_and_name ::
  "string \<Rightarrow> ingestor \<Rightarrow> (string option \<times> string option \<times> lookup_status) \<times> ingestor" where
  "get_player_uuid_and_name player_name st =
     (case map_of (uuid_cache st) player_name of
        Some uuid \<Rightarrow>
          let (current_name, st1) = get_username_from_uuid_mojang uuid st
          in (case current_name of
                None \<Rightarrow> ((Some uuid, Some player_name, SUCCESS), st1)
              | Some current \<Rightarrow>
                  if current \<noteq> [] \<and> map ascii_lower current \<noteq> map ascii_lower player_name
                  then
                    let st2 = log_name_change player_name current st1
                    in ((Some uuid, Some current, SUCCESS),
                        st2\<lparr>uuid_cache :=
                               AList.delete player_name
                                 (AList.update current uuid (uuid_cache st2))\<rparr>)
                  else ((Some uuid, Some player_name, SUCCESS), st1))
      | None \<Rightarrow> lookup_loop player_name 0 RATE_LIMIT_BACKOFF_SECONDS st)"

text \<open>
  \<^verbatim>\<open>add_uuid_to_discovery_queue\<close>: nothing is added when the uuid is a known player or
  waits unprocessed in the queue; else up to five attempts to insert, each after a locked
  database sleeping twice as long as the one before.
\<close>

definition is_uuid_in_db :: "string \<Rightarrow> db \<Rightarrow> bool" where
  "is_uuid_in_db uuid d = list_ex (\<lambda>p. p_uuid p = uuid) (players d)"

definition is_uuid_in_discovery_queue :: "string \<Rightarrow> db \<Rightarrow> bool" where
  "is_uuid_in_discovery_queue uuid d =
     list_ex (\<lambda>e. discovered_uuid e = uuid \<and> \<not> processed e) (player_discovery d)"

fun insert_attempts :: "nat \<Rightarrow> rat \<Rightarrow> string \<Rightarrow> string \<Rightarrow> ingestor \<Rightarrow> bool \<times> ingestor" where
  "insert_attempts 0 retry_delay uuid method st = (False, st)"
| "insert_attempts (Suc attempts_left) retry_delay uuid method st =
     (case db_outcomes st of
        [] \<Rightarrow>
          (True, st\<lparr>i_store := insert_discovery uuid None method (i_timestamp st) (i_store st)\<rparr>)
      | Db_ok # rest \<Rightarrow>
          (True,
           st\<lparr>i_store := insert_discovery uuid None method (i_timestamp st) (i_store st),
              db_outcomes := rest\<rparr>)
      | Db_locked # rest \<Rightarrow>
          insert_attempts attempts_left (retry_delay * 2) uuid method
            (i_sleep retry_delay (st\<lparr>db_outcomes := rest\<rparr>))
      | Db_error # rest \<Rightarrow> (False, st\<lparr>db_outcomes := rest\<rparr>))"

definition add_uuid_to_discovery_queue ::
  "string \<Rightarrow> string \<Rightarrow> string \<Rightarrow> string \<Rightarrow> ingestor \<Rightarrow> bool \<times> ingestor" where
  "add_uuid_to_discovery_queue uuid player_ign source_name method st =
     (if is_uuid_in_db uuid (i_store st) \<or> is_uuid_in_discovery_queue uuid (i_store st)
      then (False, st)
      else insert_attempts 5 (1 / 10) uuid method st)"

text \<open>
  \<^verbatim>\<open>process_scraped_names\<close>.  Lines are numbered from 1; \<^verbatim>\<open>str.strip\<close> removes ASCII white
  space at both ends.
\<close>

definition is_space :: "char \<Rightarrow> bool" where
  "is_space c = (c \<in> set [CHR '' '', CHR 0x09, CHR 0x0A, CHR 0x0B, CHR 0x0C, CHR 0x0D])"

definition strip :: "string \<Rightarrow> string" where
  "strip line = rev (dropWhile is_space (rev (dropWhile is_space line)))"

fun names_loop :: "(nat \<times> string) list \<Rightarrow> nat \<Rightarrow> ingestor \<Rightarrow> nat \<Rightarrow> nat \<times> ingestor" where
  "names_loop [] last_processed_line st processed_count = (processed_count, st)"
| "names_loop ((current_line_number, line) # rest) last_processed_line st processed_count =
     (if current_line_number \<le> last_processed_line
      then names_loop rest last_processed_line st processed_count
      else
        let name = strip line
        in if name = []
           then names_loop rest last_processed_line
                  (update_last_processed_line current_line_number st) processed_count
           else
             let ((uuid, current_name, status), st1) = get_player_uuid_and_name name st
             in case status of
                  SUCCESS \<Rightarrow>
                    let (added, st2) =
                          add_uuid_to_discovery_queue
                            (case uuid of None \<Rightarrow> [] | Some u \<Rightarrow> u) name
                            (case current_name of None \<Rightarrow> name
                             | Some c \<Rightarrow> if c = [] then name else c)
                            ''mineflayer_scrape'' st1;
                        st3 = update_last_processed_line current_line_number st2
                    in names_loop rest last_processed_line (i_sleep REQUEST_DELAY st3)
                         (if added then processed_count + 1 else processed_count)
                | PLAYER_NOT_FOUND \<Rightarrow>
                    names_loop rest last_processed_line
                      (i_sleep REQUEST_DELAY (update_last_processed_line current_line_number st1))
                      processed_count
                | RATE_LIMITED \<Rightarrow>
                    names_loop rest last_processed_line (i_sleep REQUEST_DELAY st1) processed_count
                | ERROR \<Rightarrow>
                    names_loop rest last_processed_line (i_sleep REQUEST_DELAY st1) processed_count)"

definition process_scraped_names :: "ingestor \<Rightarrow> ingestor" where
  "process_scraped_names st =
     (case scraped_names_file st of
        None \<Rightarrow> st
      | Some file_lines \<Rightarrow>
          snd (names_loop (zip [1 ..< Suc (length file_lines)] file_lines)
                 (get_last_processed_line st) st 0))"

section \<open>Histories of the discovery queue\<close>




text \<open>
  How the table \<^verbatim>\<open>player_discovery\<close> may change: not at all, by the \<^verbatim>\<open>UPDATE\<close> that
  marks the rows of one identifier processed, or by the \<^verbatim>\<open>INSERT\<close> of an unprocessed row
  under the next identifier.
\<close>

inductive queue_evolves :: "db \<Rightarrow> db \<Rightarrow> bool" where
  unchanged:
    "player_discovery d' = player_discovery d \<Longrightarrow> discovery_seq d' = discovery_seq d
     \<Longrightarrow> queue_evolves d d'"
| marked:
    "queue_evolves d d1
     \<Longrightarrow> player_discovery d' =
           map (\<lambda>e. if d_id e = k then e\<lparr>processed := True\<rparr> else e) (player_discovery d1)
     \<Longrightarrow> discovery_seq d' = discovery_seq d1
     \<Longrightarrow> queue_evolves d d'"
| inserted:
    "queue_evolves d d1
     \<Longrightarrow> player_discovery d' =
           player_discovery d1
           @ [\<lparr>d_id = discovery_seq d1 + 1, discovered_uuid = uuid, source_uuid = source,
               discovery_method = method, discovered_at = now, processed = False\<rparr>]
     \<Longrightarrow> discovery_seq d' = discovery_seq d1 + 1
     \<Longrightarrow> queue_evolves d d'"



text \<open>
  A journal respects the order "mark, then fetch" for a batch when every request to the
  player endpoint is for the uuid of an entry of the batch that an earlier event of the
  journal (or the set \<open>marked\<close>, for what came before) marked processed.
\<close>

fun marks_precede_fetches :: "discovery_entry list \<Rightarrow> nat set \<Rightarrow> event list \<Rightarrow> bool" where
  "marks_precede_fetches batch marked [] = True"
| "marks_precede_fetches batch marked (Sql_update_processed i # es) =
     marks_precede_fetches batch (insert i marked) es"
| "marks_precede_fetches batch marked (Http_get ep arg # es) =
     ((ep = Player_endpoint
         \<longrightarrow> list_ex (\<lambda>e. discovered_uuid e = arg \<and> d_id e \<in> marked) batch)
      \<and> marks_precede_fetches batch marked es)"



section \<open>Example inputs\<close>

text \<open>Concrete inputs at which the properties below are evaluated.\<close>

definition empty_tracker :: tracker where
  "empty_tracker =
     \<lparr>baseline_files = Map.empty, session_files = Map.empty, recent_games_files = Map.empty,
      player_cooldowns = Map.empty, cooldown_file = Map.empty\<rparr>"

definition example_baseline :: stats where
  "example_baseline =
     parse_bedwars_stats
       [''wins_bedwars'' \<mapsto> 10, ''losses_bedwars'' \<mapsto> 4,
        ''eight_one_wins_bedwars'' \<mapsto> 6, ''eight_one_losses_bedwars'' \<mapsto> 1,
        ''eight_two_wins_bedwars'' \<mapsto> 4, ''eight_two_losses_bedwars'' \<mapsto> 3]"

definition example_current :: stats where
  "example_current =
     parse_bedwars_stats
       [''wins_bedwars'' \<mapsto> 15, ''losses_bedwars'' \<mapsto> 5,
        ''eight_one_wins_bedwars'' \<mapsto> 11, ''eight_one_losses_bedwars'' \<mapsto> 1,
        ''eight_two_wins_bedwars'' \<mapsto> 4, ''eight_two_losses_bedwars'' \<mapsto> 4]"






definition empty_store :: db where
  "empty_store =
     \<lparr>players = [], bedwars_stats = [], player_discovery = [], stats_seq = 0,
      discovery_seq = 0\<rparr>"

text \<open>
  A names file of two lines, nothing processed yet; the API will answer the first name
  with an error 500, a failed request and a 429, and the second name with a profile.
\<close>

definition example_ingestor :: ingestor where
  "example_ingestor =
     \<lparr>i_store = empty_store, progress_file = None,
      scraped_names_file = Some [''Alex'', ''Blaze''],
      uuid_cache = [], name_changes = [], i_clock = 0,
      mojang = [Mojang_response 500 None, Mojang_exception, Mojang_response 429 None,
                Mojang_response 200 (Some ''0123456789abcdef0123456789abcdef'')],
      jitter = [1 / 4], db_outcomes = [], lookups = [], slept = []\<rparr>"



section \<open>Properties of the leveling formula\<close>

text \<open>
  Claim C1.  The level is 100 times the number of whole 487000-XP prestiges plus the levels
  earned in the remainder by paying 500, 1000, 2000, 3500 in order and then 5000 per
  level; experience 0, 500, 487000, 7000 and 12000 give levels 0, 1, 100, 4 and 5.
\<close>

theorem calculate_bedwars_level_formula:
  "calculate_bedwars_level xp = 100 * (xp div 487000) + levels_within_prestige (xp mod 487000)
   \<and> calculate_bedwars_level 0 = 0
   \<and> calculate_bedwars_level 500 = 1
   \<and> calculate_bedwars_level 487000 = 100
   \<and> calculate_bedwars_level 7000 = 4
   \<and> calculate_bedwars_level 12000 = 5"
  by (simp add: calculate_bedwars_level_def levels_within_prestige_def Let_def)

text \<open>
  Claim C10.  The level function of the leaderboard tracker and the one of the
  level-recompute utility return the same level on every experience value.
\<close>

theorem calculate_bedwars_level_implementations_agree:
  "recompute_calculate_bedwars_level experience = calculate_bedwars_level experience"
  by (simp add: recompute_calculate_bedwars_level_def calculate_bedwars_level_def Let_def)

section \<open>Properties of the ratio convention\<close>





section \<open>Properties of the session diff\<close>




section \<open>Properties of the winstreak estimates\<close>

text \<open>
  Claim C3, evaluated on the code.  A session of five solo wins and one doubles loss, with
  no winstreak reported: the solo scope has no loss, yet its estimate is reset from the
  overall counts (5 wins, 1 loss) instead of growing by its own 5 wins, and the doubles
  scope, which has no win, gets a maximum of 5.
\<close>

theorem winstreak_mode_scope_uses_overall_delta:
  "modes_diff (calculate_session_diff example_current example_baseline)
     = [(''solos'', \<lparr>wins = 5, losses = 0, WLR = 5\<rparr>), (''doubles'', \<lparr>wins = 0, losses = 1, WLR = 0\<rparr>)]
   \<and> update_winstreak_estimates []
       (calculate_session_diff example_current example_baseline) example_current
     = [(''overall'', \<lparr>api_value = None, min_possible = 0, max_possible = 5, likely = 5 / 2\<rparr>),
        (''solos'', \<lparr>api_value = None, min_possible = 0, max_possible = 5, likely = 5 / 2\<rparr>),
        (''doubles'', \<lparr>api_value = None, min_possible = 0, max_possible = 5, likely = 5 / 2\<rparr>)]"
  by code_simp

section \<open>Properties of session processing\<close>

text \<open>
  Claim C4.  When the fetched statistics have the wins and the losses of the stored
  baseline, processing the player changes nothing: no session entry, the same session
  log, the same baseline.  Hence processing twice with the same fetched statistics gives
  what processing once gives, whatever the first run did.
\<close>

theorem process_player_session_unchanged_stats:
  "(baseline_files st player_name = Some baseline_stats
      \<and> wins current_stats = wins baseline_stats \<and> losses current_stats = losses baseline_stats
    \<longrightarrow> process_player_session player_name (Some current_stats) now st = st)
   \<and> process_player_session player_name fetched now'
        (process_player_session player_name fetched now st)
      = process_player_session player_name fetched now st"
proof -
  have once: "process_player_session player_name (Some c) t s = s"
    if "baseline_files s player_name = Some b" "wins c = wins b" "losses c = losses b"
    for c b t s
    using that by (simp add: process_player_session_def)
  have after:
    "baseline_files (process_player_session player_name (Some c) t s) player_name = Some c
     \<or> process_player_session player_name (Some c) t s = s
        \<and> (\<exists>b. baseline_files s player_name = Some b \<and> wins c = wins b \<and> losses c = losses b)"
    for c t s
    by (cases "baseline_files s player_name") (simp_all add: process_player_session_def Let_def)
  have twice: "process_player_session player_name fetched now'
        (process_player_session player_name fetched now st)
      = process_player_session player_name fetched now st"
  proof (cases fetched)
    case None
    then show ?thesis by (simp add: process_player_session_def)
  next
    case (Some c)
    from after [of c now st] show ?thesis
    proof
      assume "baseline_files (process_player_session player_name (Some c) now st) player_name
                = Some c"
      then show ?thesis unfolding Some by (rule once) simp_all
    next
      assume "process_player_session player_name (Some c) now st = st
        \<and> (\<exists>b. baseline_files st player_name = Some b \<and> wins c = wins b \<and> losses c = losses b)"
      then show ?thesis unfolding Some using once by auto
    qed
  qed
  from once twice show ?thesis by blast
qed

theorem process_player_session_unchanged_stats_witness:
  "baseline_files (empty_tracker\<lparr>baseline_files := [''Steve'' \<mapsto> example_baseline]\<rparr>) ''Steve''
     = Some example_baseline
   \<and> process_player_session ''Steve'' (Some example_baseline) 60
       (empty_tracker\<lparr>baseline_files := [''Steve'' \<mapsto> example_baseline]\<rparr>)
     = empty_tracker\<lparr>baseline_files := [''Steve'' \<mapsto> example_baseline]\<rparr>
   \<and> session_files
       (process_player_session ''Steve'' (Some example_current) 120
          (process_player_session ''Steve'' (Some example_current) 60
             (empty_tracker\<lparr>baseline_files := [''Steve'' \<mapsto> example_baseline]\<rparr>))) ''Steve''
     = session_files
         (process_player_session ''Steve'' (Some example_current) 60
            (empty_tracker\<lparr>baseline_files := [''Steve'' \<mapsto> example_baseline]\<rparr>)) ''Steve''"
  using process_player_session_unchanged_stats
          [of "empty_tracker\<lparr>baseline_files := [''Steve'' \<mapsto> example_baseline]\<rparr>" "''Steve''"
              example_baseline example_baseline 60 "Some example_current" 120]
  by simp

section \<open>Properties of the recent-games log\<close>










section \<open>Properties of the leaderboards\<close>


















section \<open>Properties of the discovery queue\<close>











lemma queue_evolves_refl: "queue_evolves d d"
  by (rule queue_evolves.unchanged) simp_all





lemma queue_evolves_same_store: "store st' = store st \<Longrightarrow> queue_evolves (store st) (store st')"
  by (simp add: queue_evolves_refl)






















lemma marks_precede_fetches_mono:
  "marks_precede_fetches batch M es \<Longrightarrow> M \<subseteq> M' \<Longrightarrow> marks_precede_fetches batch M' es"
proof (induction es arbitrary: M M')
  case Nil
  then show ?case by simp
next
  case (Cons ev es)
  show ?case
  proof (cases ev)
    case (Http_get ep arg)
    with Cons.prems have "marks_precede_fetches batch M es" by simp
    then have "marks_precede_fetches batch M' es" using Cons.prems(2) by (rule Cons.IH)
    moreover have "list_ex (\<lambda>e. discovered_uuid e = arg \<and> d_id e \<in> M') batch"
      if "ep = Player_endpoint"
      using that Cons.prems Http_get by (auto simp: list_ex_iff)
    ultimately show ?thesis using Http_get by simp
  next
    case (Sql_update_processed i)
    with Cons.prems have "marks_precede_fetches batch (insert i M) es" by simp
    moreover have "insert i M \<subseteq> insert i M'" using Cons.prems(2) by blast
    ultimately have "marks_precede_fetches batch (insert i M') es" by (rule Cons.IH)
    then show ?thesis using Sql_update_processed by simp
  qed
qed






















section \<open>Properties of scraped-name resolution\<close>

text \<open>
  Claim C9, evaluated on the code.  The first of two names meets three transient failures
  (the rate-limit answer among them backed off for 10 seconds plus the jitter) and its
  line does not advance the cursor; the second name is resolved in the same run and sets
  the cursor to its line, 2.  The next run therefore starts after line 2 and never looks
  the first name up again.
\<close>

theorem transient_error_line_skipped_after_later_success:
  "progress_file (process_scraped_names example_ingestor) = Some 2
   \<and> lookups (process_scraped_names example_ingestor) = [''Alex'', ''Alex'', ''Alex'', ''Blaze'']
   \<and> slept (process_scraped_names example_ingestor) = [2, 2, 41 / 4, 2, 2, 2]
   \<and> lookups (process_scraped_names
                ((process_scraped_names example_ingestor)
                   \<lparr>mojang := [Mojang_response 200 (Some ''fedcba9876543210fedcba9876543210'')]\<rparr>))
       = [''Alex'', ''Alex'', ''Alex'', ''Blaze'']"
  by code_simp

end
